theory Spec2Isabelle
  imports Main
begin

section \<open>Data model (pkg/models)\<close>

text \<open>
  \<open>FilterMode\<close> and \<open>MappingType\<close> are Go string types: a query decoded from JSON may
  carry any string, so both are strings here and the three named constants are values.
\<close>

type_synonym FilterMode = string

definition FilterModeHistorical :: FilterMode where
  "FilterModeHistorical = ''HISTORICAL''"

definition FilterModeCurrent :: FilterMode where
  "FilterModeCurrent = ''CURRENT''"

definition FilterModeHybrid :: FilterMode where
  "FilterModeHybrid = ''HYBRID''"

type_synonym MappingType = string

definition MappingTypeRename :: MappingType where
  "MappingTypeRename = ''RENAME''"

definition MappingTypeMerge :: MappingType where
  "MappingTypeMerge = ''MERGE''"

definition MappingTypeSplit :: MappingType where
  "MappingTypeSplit = ''SPLIT''"

text \<open>
  \<open>time.Time\<close>, as far as the services read it: the civil date (all times of one
  location, as the tests and examples build them with \<open>time.UTC\<close>) and the second of the
  day. \<open>Year\<close> is Go's \<open>t.Year()\<close>; \<open>YearDay\<close> below is \<open>t.YearDay()\<close>.
\<close>

record Time =
  Year :: int
  Month :: nat
  Day :: nat
  Clock :: nat

definition Date :: "int \<Rightarrow> nat \<Rightarrow> nat \<Rightarrow> Time" where
  "Date y m d = \<lparr>Year = y, Month = m, Day = d, Clock = 0\<rparr>"

definition isLeap :: "int \<Rightarrow> bool" where
  "isLeap y = (if y mod 400 = 0 then True else if y mod 100 = 0 then False else y mod 4 = 0)"

text \<open>Days of a non-leap year before the first of month \<open>m\<close> (1 = January).\<close>

definition daysBefore :: "nat \<Rightarrow> nat" where
  "daysBefore m = sum_list (take (m - 1) [31, 28, 31, 30, 31, 30, 31, 31, 30, 31, 30, 31])"

text \<open>\<open>t.YearDay()\<close>: 1 to 365, or 1 to 366 in a leap year.\<close>

definition YearDay :: "Time \<Rightarrow> int" where
  "YearDay t = int (daysBefore (Month t)) + int (Day t)
     + (if isLeap (Year t) \<and> 2 < Month t then 1 else 0)"

text \<open>The order of instants, for the SQL comparisons on timestamps.\<close>

definition time_le :: "Time \<Rightarrow> Time \<Rightarrow> bool" where
  "time_le a b =
     (if Year a = Year b then
        (if Month a = Month b then
           (if Day a = Day b then Clock a \<le> Clock b else Day a < Day b)
         else Month a < Month b)
      else Year a < Year b)"

definition time_less :: "Time \<Rightarrow> Time \<Rightarrow> bool" where
  "time_less a b = (if time_le b a then False else True)"


text \<open>
  \<open>t.Unix()\<close>: seconds since 1970-01-01T00:00:00Z, through the day number of the civil
  date.
\<close>

definition daysFromCivil :: "int \<Rightarrow> nat \<Rightarrow> nat \<Rightarrow> int" where
  "daysFromCivil y m d =
     (let y' = (if m \<le> 2 then y - 1 else y);
          era = y' div 400;
          yoe = y' - era * 400;
          mp = (if 2 < m then int m - 3 else int m + 9);
          doy = (153 * mp + 2) div 5 + int d - 1;
          doe = yoe * 365 + yoe div 4 - yoe div 100 + doy
      in era * 146097 + doe - 719468)"

definition Unix :: "Time \<Rightarrow> int" where
  "Unix t = daysFromCivil (Year t) (Month t) (Day t) * 86400 + int (Clock t)"

text \<open>Decimal rendering, as \<open>%d\<close> prints an integer.\<close>

definition digit :: "nat \<Rightarrow> char" where
  "digit n = ''0123456789'' ! (n mod 10)"

fun showNat :: "nat \<Rightarrow> string" where
  "showNat n = (if n < 10 then [digit n] else showNat (n div 10) @ [digit n])"

declare showNat.simps [simp del]

definition showInt :: "int \<Rightarrow> string" where
  "showInt i = (if i < 0 then ''-'' @ showNat (nat (- i)) else showNat (nat i))"

definition pad2 :: "nat \<Rightarrow> string" where
  "pad2 n = [digit (n div 10), digit n]"

definition pad4 :: "nat \<Rightarrow> string" where
  "pad4 n = [digit (n div 1000), digit (n div 100), digit (n div 10), digit n]"

text \<open>
  \<open>t.Format(time.RFC3339)\<close> for a UTC time with a year from 0 to 9999:
  \<open>2024-03-15T10:30:00Z\<close>.
\<close>

definition formatRFC3339 :: "Time \<Rightarrow> string" where
  "formatRFC3339 t =
     pad4 (nat (Year t)) @ ''-'' @ pad2 (Month t) @ ''-'' @ pad2 (Day t) @ ''T''
       @ pad2 (Clock t div 3600) @ '':'' @ pad2 (Clock t div 60 mod 60) @ '':''
       @ pad2 (Clock t mod 60) @ ''Z''"

text \<open>The zero \<open>time.Time\<close> of a struct field that is never assigned.\<close>

definition zeroTime :: Time where
  "zeroTime = Date 1 1 1"

text \<open>
  Go's \<open>interface{}\<close>, with the dynamic types the services put into or read from a
  \<open>map[string]interface{}\<close>: a string, a \<open>[]string\<close>, an \<open>int\<close>, and the \<open>float64\<close>
  that \<open>calculateTenure\<close> returns. The tenure is floating point; it is kept as the pair
  of times it is computed from.
\<close>

datatype val =
    VString string
  | VStrings "string list"
  | VInt int
  | VTenure Time Time

record Response =
  ResponseID :: string
  SurveyID :: string
  Response_EmployeeID :: string
  SubmittedAt :: Time
  Response_SnapshotCore :: "string \<rightharpoonup> val"
  Response_VersionID :: string
  Answers :: "string option"
  Response_TenantID :: string
  Response_CreatedAt :: Time

record Employee =
  Employee_EmployeeID :: string
  Name :: string
  Email :: string
  Employee_UnitID :: string
  PerformanceGrade :: string
  Role :: string
  BirthDate :: Time
  HireDate :: Time
  Employee_TenantID :: string
  UpdatedAt :: Time

record EmployeeHistory =
  EmployeeHistory_ID :: string
  EmployeeHistory_EmployeeID :: string
  AttributeType :: string
  AttributeValue :: string
  EmployeeHistory_ValidFrom :: Time
  EmployeeHistory_ValidTo :: "Time option"
  EmployeeHistory_VersionID :: string
  EmployeeHistory_TenantID :: string

record OrgUnit =
  UnitID :: string
  UnitName :: string
  ParentUnitID :: "string option"
  ValidFrom :: Time
  ValidTo :: "Time option"
  IsActive :: bool
  OrgUnit_TenantID :: string
  Path :: string

record OrgUnitMapping =
  OrgUnitMapping_ID :: string
  SourceUnitID :: string
  TargetUnitIDs :: "string list"
  RelationshipType :: MappingType
  EffectiveDate :: Time
  Description :: string
  OrgUnitMapping_TenantID :: string
  OrgUnitMapping_CreatedAt :: Time

record Snapshot =
  Snapshot_EmployeeID :: string
  SnapshotCore :: "string \<rightharpoonup> val"
  VersionID :: string
  Timestamp :: Time

record TimeRange =
  From :: Time
  To :: Time

record DashboardQuery =
  Filters :: "string \<rightharpoonup> val"
  FilterMode :: FilterMode
  TimeRange :: TimeRange
  TenantID :: string

record ProvenanceInfo =
  HistoricalCount :: int
  CurrentCount :: int
  HistoricalUnits :: "string list"

record DashboardResult =
  Responses :: "Response list"
  Count :: int
  Aggregations :: "(string \<rightharpoonup> val) option"
  Provenance :: "ProvenanceInfo option"

text \<open>
  Go errors: \<open>fmt.Errorf\<close> of a message, and \<open>fmt.Errorf("...: %w", err)\<close> wrapping a
  cause.
\<close>

datatype error =
    Errorf string
  | Wrapf string error

section \<open>Snapshot helpers (pkg/service)\<close>

text \<open>
  \<open>calculateAge\<close>: the difference of the calendar years, one less when the day of the year
  of \<open>asOf\<close> is before the day of the year of the birth date. Go's \<open>int\<close> is 64 bits wide;
  calendar years are far inside it, so the arithmetic is on \<open>int\<close>.
\<close>

definition calculateAge :: "Time \<Rightarrow> Time \<Rightarrow> int" where
  "calculateAge birthDate asOf =
     (let age = Year asOf - Year birthDate
      in if YearDay asOf < YearDay birthDate then age - 1 else age)"

section \<open>Repositories and the record of their calls\<close>

text \<open>
  The services reach storage through the interfaces of pkg/repository only. A service is
  the record of the interface methods it calls, each a function of the database state
  \<open>'db\<close>. A read returns \<open>(value, error)\<close>, here \<open>error + value\<close>; \<open>Create\<close> may change
  the database, and on success hands back the response with the timestamps the store
  assigned. The world is the database state and the list of repository calls made so
  far, oldest first.
\<close>

datatype call =
    EmployeeRepo_GetByID string
  | OrgRepo_GetUnitAtTime string Time
  | ResponseRepo_Create Response
  | ResponseRepo_Query DashboardQuery

record 'db world =
  db :: 'db
  calls :: "call list"

definition called :: "call \<Rightarrow> 'db world \<Rightarrow> 'db world" where
  "called c w = w\<lparr>calls := calls w @ [c]\<rparr>"

record 'db SnapshotService =
  employeeRepo_GetByID :: "'db \<Rightarrow> string \<Rightarrow> error + Employee"
  orgRepo_GetUnitAtTime :: "'db \<Rightarrow> string \<Rightarrow> Time \<Rightarrow> error + OrgUnit"

record 'db ResponseService =
  responseRepo_Create :: "'db \<Rightarrow> Response \<Rightarrow> (error + Response) \<times> 'db"
  snapshotSvc :: "'db SnapshotService"

text \<open>\<open>OrgMapper\<close>: the cache from a current unit name to unit identifiers.\<close>

record OrgMapper =
  cache :: "string \<rightharpoonup> string list"

definition NewOrgMapper :: OrgMapper where
  "NewOrgMapper = \<lparr>cache = Map.empty\<rparr>"

record 'db DashboardService =
  responseRepo_Query :: "'db \<Rightarrow> DashboardQuery \<Rightarrow> error + Response list"
  orgMapper :: OrgMapper

section \<open>SnapshotService\<close>

definition buildCoreSnapshot :: "Employee \<Rightarrow> OrgUnit \<Rightarrow> Time \<Rightarrow> (string \<rightharpoonup> val)" where
  "buildCoreSnapshot employee orgUnit timestamp =
     [''employee_name'' \<mapsto> VString (Name employee),
      ''employee_email'' \<mapsto> VString (Email employee),
      ''department'' \<mapsto> VString (UnitName orgUnit),
      ''unit_id'' \<mapsto> VString (UnitID orgUnit),
      ''unit_path'' \<mapsto> VString (Path orgUnit),
      ''performance_grade'' \<mapsto> VString (PerformanceGrade employee),
      ''role'' \<mapsto> VString (Role employee),
      ''age'' \<mapsto> VInt (calculateAge (BirthDate employee) timestamp),
      ''tenure'' \<mapsto> VTenure (HireDate employee) timestamp,
      ''snapshot_version'' \<mapsto> VString ''1.0'',
      ''snapshot_time'' \<mapsto> VString (formatRFC3339 timestamp)]"

definition generateVersionID :: "string \<Rightarrow> Time \<Rightarrow> string" where
  "generateVersionID employeeID timestamp = employeeID @ ''_'' @ showInt (Unix timestamp)"

text \<open>
  \<open>CaptureSnapshot\<close>: the employee is read with \<open>GetByID\<close>, which takes no timestamp; the
  unit is read with \<open>GetUnitAtTime\<close> for that employee's unit at \<open>timestamp\<close>. Either error
  is wrapped and returned at once.
\<close>

definition CaptureSnapshot ::
  "'db SnapshotService \<Rightarrow> 'db world \<Rightarrow> string \<Rightarrow> Time \<Rightarrow> (error + Snapshot) \<times> 'db world" where
  "CaptureSnapshot s w employeeID timestamp =
     (let w1 = called (EmployeeRepo_GetByID employeeID) w
      in case employeeRepo_GetByID s (db w) employeeID of
           Inl err \<Rightarrow> (Inl (Wrapf ''failed to get employee'' err), w1)
         | Inr employee \<Rightarrow>
             (let w2 = called (OrgRepo_GetUnitAtTime (Employee_UnitID employee) timestamp) w1
              in case orgRepo_GetUnitAtTime s (db w) (Employee_UnitID employee) timestamp of
                   Inl err \<Rightarrow> (Inl (Wrapf ''failed to get org unit'' err), w2)
                 | Inr orgUnit \<Rightarrow>
                     (Inr \<lparr>Snapshot_EmployeeID = employeeID,
                           SnapshotCore = buildCoreSnapshot employee orgUnit timestamp,
                           VersionID = generateVersionID employeeID timestamp,
                           Timestamp = timestamp\<rparr>, w2)))"

section \<open>ResponseService\<close>

text \<open>
  \<open>Submit\<close>: \<open>now\<close> is the value of \<open>time.Now()\<close> and \<open>newID\<close> the value of
  \<open>repository.GenerateID()\<close> at the call. The struct literal sets six fields; \<open>Answers\<close>
  (a \<open>json.RawMessage\<close>, \<open>None\<close> for nil), \<open>SubmittedAt\<close> and \<open>CreatedAt\<close> keep their zero
  values. The argument \<open>answers\<close> is not read.
\<close>

definition Submit ::
  "'db ResponseService \<Rightarrow> Time \<Rightarrow> string \<Rightarrow> 'db world \<Rightarrow> string \<Rightarrow> string \<Rightarrow> string
     \<Rightarrow> (string \<rightharpoonup> val) \<Rightarrow> (error + Response) \<times> 'db world" where
  "Submit s now newID w surveyID employeeID tenantID answers =
     (case CaptureSnapshot (snapshotSvc s) w employeeID now of
        (Inl err, w1) \<Rightarrow> (Inl (Wrapf ''failed to capture snapshot'' err), w1)
      | (Inr snapshot, w1) \<Rightarrow>
          (let response = \<lparr>ResponseID = newID,
                            SurveyID = surveyID,
                            Response_EmployeeID = employeeID,
                            SubmittedAt = zeroTime,
                            Response_SnapshotCore = SnapshotCore snapshot,
                            Response_VersionID = VersionID snapshot,
                            Answers = None,
                            Response_TenantID = tenantID,
                            Response_CreatedAt = zeroTime\<rparr>;
               w2 = called (ResponseRepo_Create response) w1
           in case responseRepo_Create s (db w1) response of
                (Inl err, db') \<Rightarrow> (Inl (Wrapf ''failed to create response'' err), w2\<lparr>db := db'\<rparr>)
              | (Inr stored, db') \<Rightarrow> (Inr stored, w2\<lparr>db := db'\<rparr>)))"

section \<open>OrgMapper\<close>

text \<open>
  \<open>MapCurrentToHistorical\<close>: a cached list is returned as it is; otherwise the result is
  the one-element list of the name itself, which is cached. The repository is not read.
\<close>

definition MapCurrentToHistorical :: "OrgMapper \<Rightarrow> string \<Rightarrow> (error + string list) \<times> OrgMapper" where
  "MapCurrentToHistorical m currentUnitName =
     (case cache m currentUnitName of
        Some cached \<Rightarrow> (Inr cached, m)
      | None \<Rightarrow>
          (let result = [currentUnitName]
           in (Inr result, m\<lparr>cache := (cache m)(currentUnitName \<mapsto> result)\<rparr>)))"

section \<open>DashboardService\<close>

definition queryHistorical ::
  "'db DashboardService \<Rightarrow> 'db world \<Rightarrow> DashboardQuery \<Rightarrow> (error + DashboardResult) \<times> 'db world" where
  "queryHistorical s w query =
     (let w1 = called (ResponseRepo_Query query) w
      in case responseRepo_Query s (db w) query of
           Inl err \<Rightarrow> (Inl err, w1)
         | Inr responses \<Rightarrow>
             (Inr \<lparr>Responses = responses, Count = int (length responses),
                   Aggregations = None, Provenance = None\<rparr>, w1))"

text \<open>
  The type assertion \<open>query.Filters["department"].(string)\<close> succeeds when the key is
  present with a string value. Then the key is deleted and \<open>unit_id\<close> is set to the mapped
  list. The map is shared with the caller; the services read it again only in the
  repository call below, so the query is passed by value here.
\<close>

definition queryCurrent ::
  "'db DashboardService \<Rightarrow> 'db world \<Rightarrow> DashboardQuery
     \<Rightarrow> (error + DashboardResult) \<times> 'db DashboardService \<times> 'db world" where
  "queryCurrent s w query =
     (let run = (\<lambda>s' query'.
        (let w1 = called (ResponseRepo_Query query') w
         in case responseRepo_Query s' (db w) query' of
              Inl err \<Rightarrow> (Inl err, s', w1)
            | Inr responses \<Rightarrow>
                (Inr \<lparr>Responses = responses, Count = int (length responses),
                      Aggregations = None, Provenance = None\<rparr>, s', w1)))
      in case Filters query ''department'' of
           Some (VString dept) \<Rightarrow>
             (case MapCurrentToHistorical (orgMapper s) dept of
                (Inl err, m') \<Rightarrow>
                  (Inl (Wrapf ''failed to map current to historical'' err), s\<lparr>orgMapper := m'\<rparr>, w)
              | (Inr historicalUnitIDs, m') \<Rightarrow>
                  run (s\<lparr>orgMapper := m'\<rparr>)
                      (query\<lparr>Filters := ((Filters query)(''department'' := None))
                                           (''unit_id'' \<mapsto> VStrings historicalUnitIDs)\<rparr>))
         | _ \<Rightarrow> run s query)"

text \<open>
  One loop of \<open>mergeResults\<close>: a response whose identifier is in \<open>seen\<close> is skipped, another
  is appended to \<open>merged\<close> and its identifier marked.
\<close>

fun mergeLoop :: "string set \<Rightarrow> Response list \<Rightarrow> Response list \<Rightarrow> Response list \<times> string set" where
  "mergeLoop seen merged [] = (merged, seen)"
| "mergeLoop seen merged (r # rs) =
     (if ResponseID r \<in> seen then mergeLoop seen merged rs
      else mergeLoop (insert (ResponseID r) seen) (merged @ [r]) rs)"

definition mergeResults :: "DashboardResult \<Rightarrow> DashboardResult \<Rightarrow> DashboardResult" where
  "mergeResults historical current =
     (let (merged1, seen1) = mergeLoop {} [] (Responses historical);
          (merged, seen) = mergeLoop seen1 merged1 (Responses current)
      in \<lparr>Responses = merged, Count = int (length merged), Aggregations = None,
          Provenance = Some \<lparr>HistoricalCount = Count historical,
                             CurrentCount = Count current,
                             HistoricalUnits = []\<rparr>\<rparr>)"

definition queryHybrid ::
  "'db DashboardService \<Rightarrow> 'db world \<Rightarrow> DashboardQuery
     \<Rightarrow> (error + DashboardResult) \<times> 'db DashboardService \<times> 'db world" where
  "queryHybrid s w query =
     (case queryHistorical s w query of
        (Inl err, w1) \<Rightarrow> (Inl err, s, w1)
      | (Inr historicalResult, w1) \<Rightarrow>
          (case queryCurrent s w1 query of
             (Inl err, s', w2) \<Rightarrow> (Inl err, s', w2)
           | (Inr currentResult, s', w2) \<Rightarrow>
               (Inr (mergeResults historicalResult currentResult), s', w2)))"

definition Query ::
  "'db DashboardService \<Rightarrow> 'db world \<Rightarrow> DashboardQuery
     \<Rightarrow> (error + DashboardResult) \<times> 'db DashboardService \<times> 'db world" where
  "Query s w query =
     (if FilterMode query = FilterModeHistorical then
        (case queryHistorical s w query of (res, w1) \<Rightarrow> (res, s, w1))
      else if FilterMode query = FilterModeCurrent then queryCurrent s w query
      else if FilterMode query = FilterModeHybrid then queryHybrid s w query
      else (Inl (Errorf (''invalid filter mode: '' @ FilterMode query)), s, w))"

section \<open>PostgreSQL repositories (pkg/repository)\<close>

text \<open>
  The tables the snapshot reads select from, as lists of rows. \<open>QueryRowContext(...).Scan\<close>
  takes the first row of the result and gives \<open>sql.ErrNoRows\<close> when there is none; a row is
  looked up in table order. A failing connection is a further error of every method,
  which the services treat like any other error; it is not a case of these functions.
\<close>

record pgdb =
  employees :: "Employee list"
  employee_history :: "EmployeeHistory list"
  org_units_history :: "OrgUnit list"
  org_unit_mapping :: "OrgUnitMapping list"

text \<open>\<open>SELECT ... FROM employees WHERE employee_id = $1\<close>: the live row, no timestamp.\<close>

definition PostgresEmployeeRepository_GetByID :: "pgdb \<Rightarrow> string \<Rightarrow> error + Employee" where
  "PostgresEmployeeRepository_GetByID d employeeID =
     (case find (\<lambda>e. Employee_EmployeeID e = employeeID) (employees d) of
        None \<Rightarrow> Inl (Errorf (''employee not found: '' @ employeeID))
      | Some emp \<Rightarrow> Inr emp)"

text \<open>
  \<open>... FROM employee_history WHERE employee_id = $1 AND valid_from <= $2
  AND (valid_to IS NULL OR valid_to > $2)\<close>: the attribute rows valid at \<open>asOf\<close>.
\<close>

definition PostgresEmployeeRepository_GetHistory ::
  "pgdb \<Rightarrow> string \<Rightarrow> Time \<Rightarrow> error + EmployeeHistory list" where
  "PostgresEmployeeRepository_GetHistory d employeeID asOf =
     Inr (filter (\<lambda>h. EmployeeHistory_EmployeeID h = employeeID
                      \<and> time_le (EmployeeHistory_ValidFrom h) asOf
                      \<and> (case EmployeeHistory_ValidTo h of
                            None \<Rightarrow> True
                          | Some validTo \<Rightarrow> time_less asOf validTo))
            (employee_history d))"

text \<open>
  \<open>... FROM org_units_history WHERE unit_id = $1 AND valid_from <= $2
  AND (valid_to IS NULL OR valid_to > $2)\<close>, scanned by \<open>scanOrgUnit\<close>.
\<close>

definition PostgresOrgRepository_GetUnitAtTime :: "pgdb \<Rightarrow> string \<Rightarrow> Time \<Rightarrow> error + OrgUnit" where
  "PostgresOrgRepository_GetUnitAtTime d unitID asOf =
     (case find (\<lambda>u. UnitID u = unitID
                      \<and> time_le (ValidFrom u) asOf
                      \<and> (case ValidTo u of
                            None \<Rightarrow> True
                          | Some validTo \<Rightarrow> time_less asOf validTo))
                (org_units_history d) of
        None \<Rightarrow> Inl (Errorf ''org unit not found'')
      | Some unit \<Rightarrow> Inr unit)"

text \<open>The snapshot service as \<open>main\<close> wires it, on the PostgreSQL repositories.\<close>

definition PostgresSnapshotService :: "pgdb SnapshotService" where
  "PostgresSnapshotService =
     \<lparr>employeeRepo_GetByID = PostgresEmployeeRepository_GetByID,
      orgRepo_GetUnitAtTime = PostgresOrgRepository_GetUnitAtTime\<rparr>"

section \<open>The lineage closure of the specification\<close>

text \<open>
  The backward traversal as the specification words it, for comparison with
  \<open>MapCurrentToHistorical\<close>: starting from the anchor, repeatedly find the edges where a
  unit already in the result appears among the targets, and add their source. One round
  is \<open>spec_predecessors\<close>; a round that adds nothing ends the traversal, and every other
  round adds the source of an edge not used before, so as many rounds as there are
  edges reach the closure.
\<close>

definition spec_predecessors :: "OrgUnitMapping list \<Rightarrow> string list \<Rightarrow> string list" where
  "spec_predecessors edges units =
     remdups (units @ map SourceUnitID
        (filter (\<lambda>e. list_ex (\<lambda>u. u \<in> set (TargetUnitIDs e)) units) edges))"

definition spec_TO_HISTORICAL :: "OrgUnitMapping list \<Rightarrow> string \<Rightarrow> string list" where
  "spec_TO_HISTORICAL edges anchor = (spec_predecessors edges ^^ length edges) [anchor]"

section \<open>Fixtures\<close>

text \<open>The employee, unit and timestamp of \<open>TestSnapshotCapture\<close>.\<close>

definition test_timestamp :: Time where
  "test_timestamp = \<lparr>Year = 2024, Month = 3, Day = 15, Clock = 37800\<rparr>"

definition test_employee :: Employee where
  "test_employee =
     \<lparr>Employee_EmployeeID = ''emp_123'', Name = ''John Doe'',
      Email = ''john.doe@example.com'', Employee_UnitID = ''unit_456'',
      PerformanceGrade = ''A'', Role = ''Senior Manager'',
      BirthDate = Date 1989 1 1, HireDate = Date 2019 6 1,
      Employee_TenantID = [], UpdatedAt = zeroTime\<rparr>"

definition test_orgUnit :: OrgUnit where
  "test_orgUnit =
     \<lparr>UnitID = ''unit_456'', UnitName = ''Sales APAC'', ParentUnitID = None,
      ValidFrom = zeroTime, ValidTo = None, IsActive = False, OrgUnit_TenantID = [],
      Path = ''root.apac.sales''\<rparr>"

text \<open>
  Mock repositories in the manner of the tests: \<open>emp_123\<close> and \<open>unit_456\<close> are known,
  \<open>emp_124\<close> is an employee of a unit that has no record, every other identifier is an
  error. The response store keeps the responses it is given, in order.
\<close>

definition mockSnapshotService :: "'db SnapshotService" where
  "mockSnapshotService =
     \<lparr>employeeRepo_GetByID = (\<lambda>d employeeID.
        if employeeID = ''emp_123'' then Inr test_employee
        else if employeeID = ''emp_124''
          then Inr (test_employee\<lparr>Employee_EmployeeID := ''emp_124'',
                                   Employee_UnitID := ''unit_000''\<rparr>)
        else Inl (Errorf ''mock: employee not found'')),
      orgRepo_GetUnitAtTime = (\<lambda>d unitID asOf.
        if unitID = ''unit_456'' then Inr test_orgUnit
        else Inl (Errorf ''mock: org unit not found''))\<rparr>"

definition mockResponseService :: "Response list ResponseService" where
  "mockResponseService =
     \<lparr>responseRepo_Create = (\<lambda>d response. (Inr response, d @ [response])),
      snapshotSvc = mockSnapshotService\<rparr>"

definition test_response :: "string \<Rightarrow> string \<Rightarrow> Response" where
  "test_response responseID department =
     \<lparr>ResponseID = responseID, SurveyID = ''survey_001'',
      Response_EmployeeID = ''emp_123'', SubmittedAt = test_timestamp,
      Response_SnapshotCore = [''department'' \<mapsto> VString department],
      Response_VersionID = ''emp_123_1710498600'', Answers = None,
      Response_TenantID = ''tenant_acme'', Response_CreatedAt = test_timestamp\<rparr>"

text \<open>
  A mock response repository: a query that still filters on \<open>department\<close> finds \<open>r1\<close>
  and \<open>r2\<close>, a query on \<open>unit_id\<close> finds \<open>r2\<close> and \<open>r3\<close>.
\<close>

definition mockDashboardService :: "'db DashboardService" where
  "mockDashboardService =
     \<lparr>responseRepo_Query = (\<lambda>d query.
        if Filters query ''department'' = None
        then Inr [test_response ''r2'' ''Revenue APAC'', test_response ''r3'' ''Sales APAC'']
        else Inr [test_response ''r1'' ''Revenue APAC'', test_response ''r2'' ''Revenue APAC'']),
      orgMapper = NewOrgMapper\<rparr>"

definition test_query :: "FilterMode \<Rightarrow> DashboardQuery" where
  "test_query mode =
     \<lparr>Filters = [''department'' \<mapsto> VString ''Revenue APAC'',
                 ''performance_grade'' \<mapsto> VString ''A''],
      FilterMode = mode,
      TimeRange = \<lparr>From = Date 2024 1 1,
                   To = \<lparr>Year = 2024, Month = 12, Day = 31, Clock = 86399\<rparr>\<rparr>,
      TenantID = ''tenant_acme''\<rparr>"

text \<open>
  The restructure of the examples: unit \<open>unit_123\<close> renamed from Sales APAC to Revenue
  APAC on 2024-06-01 (the identifier persists), then split into \<open>unit_456\<close> and
  \<open>unit_457\<close> on 2024-09-01.
\<close>

definition restructure_edges :: "OrgUnitMapping list" where
  "restructure_edges =
     [\<lparr>OrgUnitMapping_ID = ''m1'', SourceUnitID = ''unit_123'',
       TargetUnitIDs = [''unit_123''], RelationshipType = MappingTypeRename,
       EffectiveDate = Date 2024 6 1, Description = ''Sales APAC renamed to Revenue APAC'',
       OrgUnitMapping_TenantID = ''tenant_acme'', OrgUnitMapping_CreatedAt = Date 2024 6 1\<rparr>,
      \<lparr>OrgUnitMapping_ID = ''m2'', SourceUnitID = ''unit_123'',
       TargetUnitIDs = [''unit_456'', ''unit_457''], RelationshipType = MappingTypeSplit,
       EffectiveDate = Date 2024 9 1, Description = ''Split Sales APAC into regional teams'',
       OrgUnitMapping_TenantID = ''tenant_acme'', OrgUnitMapping_CreatedAt = Date 2024 9 1\<rparr>]"

text \<open>
  A database in which employee \<open>emp_123\<close> was regraded: the live row carries grade B, the
  history row valid from 2024-01-01 to 2024-06-01 carries grade A.
\<close>

definition regraded_db :: pgdb where
  "regraded_db =
     \<lparr>employees = [test_employee\<lparr>PerformanceGrade := ''B''\<rparr>],
      employee_history =
        [\<lparr>EmployeeHistory_ID = ''h1'', EmployeeHistory_EmployeeID = ''emp_123'',
          AttributeType = ''performance_grade'', AttributeValue = ''A'',
          EmployeeHistory_ValidFrom = Date 2024 1 1,
          EmployeeHistory_ValidTo = Some (Date 2024 6 1),
          EmployeeHistory_VersionID = ''emp_123_1704067200'',
          EmployeeHistory_TenantID = ''tenant_acme''\<rparr>],
      org_units_history = [test_orgUnit\<lparr>ValidFrom := Date 2020 1 1\<rparr>],
      org_unit_mapping = []\<rparr>"

text \<open>Whether a recorded call is a write to the response store.\<close>

fun is_Create :: "call \<Rightarrow> bool" where
  "is_Create (ResponseRepo_Create r) = True"
| "is_Create c = False"

section \<open>Lemmas on capture and merge\<close>

lemma CaptureSnapshot_success:
  assumes "employeeRepo_GetByID s (db w) employeeID = Inr employee"
    and "orgRepo_GetUnitAtTime s (db w) (Employee_UnitID employee) timestamp = Inr orgUnit"
  shows "CaptureSnapshot s w employeeID timestamp =
           (Inr \<lparr>Snapshot_EmployeeID = employeeID,
                 SnapshotCore = buildCoreSnapshot employee orgUnit timestamp,
                 VersionID = generateVersionID employeeID timestamp,
                 Timestamp = timestamp\<rparr>,
            w\<lparr>calls := calls w @ [EmployeeRepo_GetByID employeeID,
                                   OrgRepo_GetUnitAtTime (Employee_UnitID employee) timestamp]\<rparr>)"
  using assms by (simp add: CaptureSnapshot_def called_def Let_def)

lemma CaptureSnapshot_employee_failure:
  assumes "employeeRepo_GetByID s (db w) employeeID = Inl e"
  shows "CaptureSnapshot s w employeeID timestamp =
           (Inl (Wrapf ''failed to get employee'' e),
            w\<lparr>calls := calls w @ [EmployeeRepo_GetByID employeeID]\<rparr>)"
  using assms by (simp add: CaptureSnapshot_def called_def Let_def)

lemma CaptureSnapshot_unit_failure:
  assumes "employeeRepo_GetByID s (db w) employeeID = Inr employee"
    and "orgRepo_GetUnitAtTime s (db w) (Employee_UnitID employee) timestamp = Inl e"
  shows "CaptureSnapshot s w employeeID timestamp =
           (Inl (Wrapf ''failed to get org unit'' e),
            w\<lparr>calls := calls w @ [EmployeeRepo_GetByID employeeID,
                                   OrgRepo_GetUnitAtTime (Employee_UnitID employee) timestamp]\<rparr>)"
  using assms by (simp add: CaptureSnapshot_def called_def Let_def)

lemma mock_GetByID_emp_123:
  "employeeRepo_GetByID mockSnapshotService d ''emp_123'' = Inr test_employee"
  by (simp add: mockSnapshotService_def)

lemma mock_GetUnitAtTime_unit_456:
  "orgRepo_GetUnitAtTime mockSnapshotService d (Employee_UnitID test_employee) t = Inr test_orgUnit"
  by (simp add: mockSnapshotService_def test_employee_def)

lemma find_append: "find P (xs @ ys) = (case find P xs of None \<Rightarrow> find P ys | Some x \<Rightarrow> Some x)"
  by (induction xs) auto

lemma find_append_skip:
  assumes "ResponseID r \<in> ResponseID ` set merged"
  shows "find (\<lambda>x. ResponseID x = i) (merged @ r # rs) = find (\<lambda>x. ResponseID x = i) (merged @ rs)"
proof (cases "find (\<lambda>x. ResponseID x = i) merged")
  case None
  then have "ResponseID r \<noteq> i" using assms by (auto simp: find_None_iff)
  with None show ?thesis by (simp add: find_append)
next
  case (Some a)
  then show ?thesis by (simp add: find_append)
qed

lemma mergeLoop_append:
  "mergeLoop seen merged (xs @ ys) =
     (case mergeLoop seen merged xs of (m1, s1) \<Rightarrow> mergeLoop s1 m1 ys)"
  by (induction xs arbitrary: seen merged) auto

lemma mergeLoop_inv:
  assumes "seen = ResponseID ` set merged" "distinct (map ResponseID merged)"
    and "mergeLoop seen merged rs = (merged', seen')"
  shows "seen' = ResponseID ` set merged' \<and> distinct (map ResponseID merged')
     \<and> ResponseID ` set merged' = ResponseID ` set merged \<union> ResponseID ` set rs
     \<and> (\<forall>i. find (\<lambda>r. ResponseID r = i) merged' = find (\<lambda>r. ResponseID r = i) (merged @ rs))"
  using assms
proof (induction rs arbitrary: seen merged)
  case Nil
  then show ?case by auto
next
  case (Cons r rs)
  show ?case
  proof (cases "ResponseID r \<in> seen")
    case True
    with Cons.prems have m: "mergeLoop seen merged rs = (merged', seen')" by simp
    note ih = Cons.IH [OF Cons.prems(1) Cons.prems(2) m]
    from True Cons.prems(1) have "ResponseID r \<in> ResponseID ` set merged" by simp
    then have f: "\<And>i. find (\<lambda>r. ResponseID r = i) (merged @ r # rs) = find (\<lambda>r. ResponseID r = i) (merged @ rs)"
      by (rule find_append_skip)
    show ?thesis using ih True Cons.prems(1) f by auto
  next
    case False
    with Cons.prems have m: "mergeLoop (insert (ResponseID r) seen) (merged @ [r]) rs = (merged', seen')" by simp
    have a: "insert (ResponseID r) seen = ResponseID ` set (merged @ [r])"
      using Cons.prems(1) by auto
    have b: "distinct (map ResponseID (merged @ [r]))"
      using Cons.prems(1,2) False by auto
    note ih = Cons.IH [OF a b m]
    show ?thesis using ih by auto
  qed
qed

lemma mergeResults_Responses:
  "Responses (mergeResults h c) = fst (mergeLoop {} [] (Responses h @ Responses c))"
  by (simp add: mergeResults_def mergeLoop_append split: prod.splits)

lemma mergeResults_props:
  "distinct (map ResponseID (Responses (mergeResults h c)))
   \<and> set (map ResponseID (Responses (mergeResults h c)))
       = set (map ResponseID (Responses h)) \<union> set (map ResponseID (Responses c))
   \<and> (\<forall>i. find (\<lambda>r. ResponseID r = i) (Responses (mergeResults h c))
          = find (\<lambda>r. ResponseID r = i) (Responses h @ Responses c))
   \<and> Count (mergeResults h c) = int (length (Responses (mergeResults h c)))
   \<and> Provenance (mergeResults h c)
       = Some \<lparr>HistoricalCount = Count h, CurrentCount = Count c, HistoricalUnits = []\<rparr>"
proof -
  obtain m sn where ml: "mergeLoop {} [] (Responses h @ Responses c) = (m, sn)"
    by (cases "mergeLoop {} [] (Responses h @ Responses c)")
  have r: "Responses (mergeResults h c) = m"
    by (simp add: mergeResults_Responses ml)
  have "{} = ResponseID ` set ([] :: Response list)" "distinct (map ResponseID [])"
    by simp_all
  from mergeLoop_inv [OF this ml] r
  have "distinct (map ResponseID (Responses (mergeResults h c)))
   \<and> set (map ResponseID (Responses (mergeResults h c)))
       = set (map ResponseID (Responses h)) \<union> set (map ResponseID (Responses c))
   \<and> (\<forall>i. find (\<lambda>r. ResponseID r = i) (Responses (mergeResults h c))
          = find (\<lambda>r. ResponseID r = i) (Responses h @ Responses c))"
    by (simp add: image_Un)
  moreover have "Count (mergeResults h c) = int (length (Responses (mergeResults h c)))
   \<and> Provenance (mergeResults h c)
       = Some \<lparr>HistoricalCount = Count h, CurrentCount = Count c, HistoricalUnits = []\<rparr>"
    by (simp add: mergeResults_def split: prod.splits)
  ultimately show ?thesis by blast
qed

lemma queryHistorical_Count:
  "queryHistorical s w query = (Inr h, w1) \<Longrightarrow>
     Count h = int (length (Responses h)) \<and> calls w1 = calls w @ [ResponseRepo_Query query]
     \<and> db w1 = db w"
  by (auto simp: queryHistorical_def called_def Let_def split: sum.splits)

lemma queryCurrent_Count:
  "queryCurrent s w query = (Inr c, s', w1) \<Longrightarrow>
     Count c = int (length (Responses c))
     \<and> (\<exists>q'. calls w1 = calls w @ [ResponseRepo_Query q'])"
  by (auto simp: queryCurrent_def called_def Let_def split: sum.splits option.splits val.splits prod.splits)

lemma queryHistorical_calls:
  "calls (snd (queryHistorical s w query)) = calls w @ [ResponseRepo_Query query]"
  by (simp add: queryHistorical_def called_def Let_def split: sum.splits)

lemma queryCurrent_calls:
  "\<exists>q'. calls (snd (snd (queryCurrent s w query))) = calls w @ [ResponseRepo_Query q']
     \<and> (\<forall>k. k \<noteq> ''department'' \<longrightarrow> k \<noteq> ''unit_id'' \<longrightarrow> Filters q' k = Filters query k)
     \<and> ((\<forall>dept. Filters query ''department'' \<noteq> Some (VString dept)) \<longrightarrow> q' = query)"
  by (auto simp: queryCurrent_def MapCurrentToHistorical_def called_def Let_def
      split: sum.splits option.splits val.splits)

lemma queryHybrid_calls:
  "\<exists>q'. (calls (snd (snd (queryHybrid s w query))) = calls w @ [ResponseRepo_Query query]
          \<or> calls (snd (snd (queryHybrid s w query)))
            = calls w @ [ResponseRepo_Query query, ResponseRepo_Query q'])
     \<and> (\<forall>k. k \<noteq> ''department'' \<longrightarrow> k \<noteq> ''unit_id'' \<longrightarrow> Filters q' k = Filters query k)
     \<and> ((\<forall>dept. Filters query ''department'' \<noteq> Some (VString dept)) \<longrightarrow> q' = query)"
proof (cases "queryHistorical s w query")
  case (Pair r w1)
  have c1: "calls w1 = calls w @ [ResponseRepo_Query query]"
    using queryHistorical_calls [of s w query] Pair by simp
  obtain q' where q: "calls (snd (snd (queryCurrent s w1 query))) = calls w1 @ [ResponseRepo_Query q']"
    and k: "\<forall>k. k \<noteq> ''department'' \<longrightarrow> k \<noteq> ''unit_id'' \<longrightarrow> Filters q' k = Filters query k"
    and d: "(\<forall>dept. Filters query ''department'' \<noteq> Some (VString dept)) \<longrightarrow> q' = query"
    using queryCurrent_calls [of s w1 query] by blast
  have "calls (snd (snd (queryHybrid s w query))) = calls w @ [ResponseRepo_Query query]
          \<or> calls (snd (snd (queryHybrid s w query)))
            = calls w @ [ResponseRepo_Query query, ResponseRepo_Query q']"
  proof (cases r)
    case (Inl e)
    with Pair c1 show ?thesis by (simp add: queryHybrid_def)
  next
    case (Inr h)
    have "snd (snd (queryHybrid s w query)) = snd (snd (queryCurrent s w1 query))"
      using Pair Inr by (simp add: queryHybrid_def split: prod.splits sum.splits)
    with q c1 show ?thesis by simp
  qed
  with k d show ?thesis by blast
qed

lemma queryCurrent_translates:
  assumes "Filters query ''department'' = Some (VString dept)"
    and "fst (MapCurrentToHistorical (orgMapper s) dept) = Inr ids"
  shows "calls (snd (snd (queryCurrent s w query)))
           = calls w @ [ResponseRepo_Query
               (query\<lparr>Filters := ((Filters query)(''department'' := None))
                                    (''unit_id'' \<mapsto> VStrings ids)\<rparr>)]"
  using assms
  by (cases "MapCurrentToHistorical (orgMapper s) dept")
     (simp add: queryCurrent_def called_def Let_def split: sum.splits)

lemma queryHistorical_world:
  assumes "queryHistorical s w query = (r, w1)"
  shows "db w1 = db w \<and> calls w1 = calls w @ [ResponseRepo_Query query]
     \<and> isl r = isl (responseRepo_Query s (db w) query)"
  using assms by (auto simp: queryHistorical_def called_def Let_def split: sum.splits)

lemma queryHybrid_translates:
  assumes "Filters query ''department'' = Some (VString dept)"
    and "fst (MapCurrentToHistorical (orgMapper s) dept) = Inr ids"
  shows "calls (snd (snd (queryHybrid s w query)))
           = calls w @
             (if isl (responseRepo_Query s (db w) query) then [ResponseRepo_Query query]
              else [ResponseRepo_Query query,
                    ResponseRepo_Query
                      (query\<lparr>Filters := ((Filters query)(''department'' := None))
                                           (''unit_id'' \<mapsto> VStrings ids)\<rparr>)])"
proof (cases "queryHistorical s w query")
  case (Pair r w1)
  note hw = queryHistorical_world [OF Pair]
  show ?thesis
  proof (cases r)
    case (Inl e)
    with Pair hw show ?thesis by (simp add: queryHybrid_def)
  next
    case (Inr h)
    have "snd (snd (queryHybrid s w query)) = snd (snd (queryCurrent s w1 query))"
      using Pair Inr by (simp add: queryHybrid_def split: prod.splits sum.splits)
    with queryCurrent_translates [OF assms, of w1] hw Inr show ?thesis by simp
  qed
qed

lemma Query_other_filters:
  assumes "ResponseRepo_Query q' \<in> set (drop (length (calls w)) (calls (snd (snd (Query s w query)))))"
  shows "(k \<noteq> ''department'' \<longrightarrow> k \<noteq> ''unit_id'' \<longrightarrow> Filters q' k = Filters query k)
     \<and> ((\<forall>dept. Filters query ''department'' \<noteq> Some (VString dept)) \<longrightarrow> q' = query)
     \<and> (FilterMode query = FilterModeHistorical \<longrightarrow> q' = query)"
proof -
  let ?new = "drop (length (calls w)) (calls (snd (snd (Query s w query))))"
  consider (h) "FilterMode query = FilterModeHistorical"
    | (c) "FilterMode query \<noteq> FilterModeHistorical" "FilterMode query = FilterModeCurrent"
    | (y) "FilterMode query \<noteq> FilterModeHistorical" "FilterMode query \<noteq> FilterModeCurrent"
          "FilterMode query = FilterModeHybrid"
    | (n) "FilterMode query \<noteq> FilterModeHistorical" "FilterMode query \<noteq> FilterModeCurrent"
          "FilterMode query \<noteq> FilterModeHybrid"
    by blast
  then show ?thesis
  proof cases
    case h
    then have "snd (snd (Query s w query)) = snd (queryHistorical s w query)"
      by (simp add: Query_def split: prod.splits)
    then have "?new = [ResponseRepo_Query query]"
      by (simp add: queryHistorical_calls)
    with assms have "q' = query" by simp
    then show ?thesis by simp
  next
    case c
    then have e: "Query s w query = queryCurrent s w query" by (simp add: Query_def)
    obtain qc where q: "calls (snd (snd (queryCurrent s w query))) = calls w @ [ResponseRepo_Query qc]"
      and k: "\<forall>k. k \<noteq> ''department'' \<longrightarrow> k \<noteq> ''unit_id'' \<longrightarrow> Filters qc k = Filters query k"
      and d: "(\<forall>dept. Filters query ''department'' \<noteq> Some (VString dept)) \<longrightarrow> qc = query"
      using queryCurrent_calls [of s w query] by blast
    from e q have "?new = [ResponseRepo_Query qc]" by simp
    with assms have "q' = qc" by simp
    with k d c show ?thesis by simp
  next
    case y
    then have e: "Query s w query = queryHybrid s w query" by (simp add: Query_def)
    obtain qc where q: "calls (snd (snd (queryHybrid s w query))) = calls w @ [ResponseRepo_Query query]
          \<or> calls (snd (snd (queryHybrid s w query)))
            = calls w @ [ResponseRepo_Query query, ResponseRepo_Query qc]"
      and k: "\<forall>k. k \<noteq> ''department'' \<longrightarrow> k \<noteq> ''unit_id'' \<longrightarrow> Filters qc k = Filters query k"
      and d: "(\<forall>dept. Filters query ''department'' \<noteq> Some (VString dept)) \<longrightarrow> qc = query"
      using queryHybrid_calls [of s w query] by blast
    from e q have "?new = [ResponseRepo_Query query]
        \<or> ?new = [ResponseRepo_Query query, ResponseRepo_Query qc]" by auto
    with assms have "q' = query \<or> q' = qc" by auto
    then show ?thesis
    proof
      assume "q' = query"
      then show ?thesis using y by simp
    next
      assume "q' = qc"
      with k d y show ?thesis by simp
    qed
  next
    case n
    then have "Query s w query = (Inl (Errorf (''invalid filter mode: '' @ FilterMode query)), s, w)"
      by (simp add: Query_def)
    with assms show ?thesis by simp
  qed
qed

section \<open>Snapshot capture\<close>

text \<open>
  C8: the age placed in the snapshot is \<open>calculateAge\<close> of the birth date and the capture
  timestamp: the difference of the calendar years, minus one exactly when the day of the
  year of the timestamp is strictly before the day of the year of the birth date. For
  the birth date 1990-06-15 the age is 33 on 2024-03-01 and 34 on 2024-07-01.
\<close>

theorem calculateAge_year_difference:
  "buildCoreSnapshot employee orgUnit timestamp ''age''
      = Some (VInt (calculateAge (BirthDate employee) timestamp))
   \<and> (calculateAge birthDate asOf = Year asOf - Year birthDate - 1)
      = (YearDay asOf < YearDay birthDate)
   \<and> (calculateAge birthDate asOf = Year asOf - Year birthDate)
      = (YearDay birthDate \<le> YearDay asOf)
   \<and> calculateAge (Date 1990 6 15) (Date 2024 3 1) = 33
   \<and> calculateAge (Date 1990 6 15) (Date 2024 7 1) = 34"
  by (simp add: calculateAge_def Let_def YearDay_def Date_def daysBefore_def isLeap_def
      not_less buildCoreSnapshot_def)

text \<open>
  C3, as the code has it: the employee attributes of the snapshot are those of the record
  that \<open>GetByID\<close> returns, a read that takes no timestamp (the live row of the employees
  table); the unit is read for that employee's unit as of the capture timestamp, and age
  and tenure are computed as of the capture timestamp. When both reads succeed the
  capture succeeds with exactly this snapshot, after exactly these two reads.
\<close>

theorem CaptureSnapshot_reads:
  assumes "employeeRepo_GetByID s (db w) employeeID = Inr employee"
    and "orgRepo_GetUnitAtTime s (db w) (Employee_UnitID employee) timestamp = Inr orgUnit"
  shows "CaptureSnapshot s w employeeID timestamp =
           (Inr \<lparr>Snapshot_EmployeeID = employeeID,
                 SnapshotCore = buildCoreSnapshot employee orgUnit timestamp,
                 VersionID = generateVersionID employeeID timestamp,
                 Timestamp = timestamp\<rparr>,
            w\<lparr>calls := calls w @ [EmployeeRepo_GetByID employeeID,
                                   OrgRepo_GetUnitAtTime (Employee_UnitID employee) timestamp]\<rparr>)
     \<and> buildCoreSnapshot employee orgUnit timestamp ''employee_name'' = Some (VString (Name employee))
     \<and> buildCoreSnapshot employee orgUnit timestamp ''employee_email'' = Some (VString (Email employee))
     \<and> buildCoreSnapshot employee orgUnit timestamp ''performance_grade''
          = Some (VString (PerformanceGrade employee))
     \<and> buildCoreSnapshot employee orgUnit timestamp ''role'' = Some (VString (Role employee))
     \<and> buildCoreSnapshot employee orgUnit timestamp ''age''
          = Some (VInt (calculateAge (BirthDate employee) timestamp))
     \<and> buildCoreSnapshot employee orgUnit timestamp ''tenure''
          = Some (VTenure (HireDate employee) timestamp)
     \<and> buildCoreSnapshot employee orgUnit timestamp ''department'' = Some (VString (UnitName orgUnit))
     \<and> buildCoreSnapshot employee orgUnit timestamp ''unit_id'' = Some (VString (UnitID orgUnit))
     \<and> buildCoreSnapshot employee orgUnit timestamp ''unit_path'' = Some (VString (Path orgUnit))"
  using assms by (simp add: CaptureSnapshot_def called_def Let_def buildCoreSnapshot_def)

theorem CaptureSnapshot_reads_witness:
  "employeeRepo_GetByID mockSnapshotService (db \<lparr>db = (), calls = []\<rparr>) ''emp_123''
      = Inr test_employee
   \<and> orgRepo_GetUnitAtTime mockSnapshotService (db \<lparr>db = (), calls = []\<rparr>)
        (Employee_UnitID test_employee) test_timestamp = Inr test_orgUnit
   \<and> calls (snd (CaptureSnapshot mockSnapshotService \<lparr>db = (), calls = []\<rparr> ''emp_123''
         test_timestamp))
       = [EmployeeRepo_GetByID ''emp_123'', OrgRepo_GetUnitAtTime ''unit_456'' test_timestamp]
   \<and> (case fst (CaptureSnapshot mockSnapshotService \<lparr>db = (), calls = []\<rparr> ''emp_123''
                   test_timestamp) of
         Inr snap \<Rightarrow> map (SnapshotCore snap)
                       [''employee_name'', ''department'', ''performance_grade'', ''age'']
       | Inl e \<Rightarrow> [])
       = [Some (VString ''John Doe''), Some (VString ''Sales APAC''), Some (VString ''A''),
          Some (VInt 35)]"
proof -
  have a: "employeeRepo_GetByID mockSnapshotService (db \<lparr>db = (), calls = []\<rparr>) ''emp_123''
      = Inr test_employee"
    by (rule mock_GetByID_emp_123)
  have b: "orgRepo_GetUnitAtTime mockSnapshotService (db \<lparr>db = (), calls = []\<rparr>)
        (Employee_UnitID test_employee) test_timestamp = Inr test_orgUnit"
    by (rule mock_GetUnitAtTime_unit_456)
  have age: "calculateAge (BirthDate test_employee) test_timestamp = 35"
    by (simp add: calculateAge_def test_employee_def test_timestamp_def Date_def YearDay_def
        daysBefore_def isLeap_def Let_def)
  have f: "Name test_employee = ''John Doe''" "PerformanceGrade test_employee = ''A''"
    "UnitName test_orgUnit = ''Sales APAC''" "Employee_UnitID test_employee = ''unit_456''"
    by (simp_all add: test_employee_def test_orgUnit_def)
  from CaptureSnapshot_reads [OF a b] a b age f
  show ?thesis by simp
qed

text \<open>
  C3 as stated fails: in \<open>regraded_db\<close> the history row valid on 2024-03-15 carries grade
  A, and the snapshot captured for 2024-03-15 carries the live grade B.
\<close>

theorem CaptureSnapshot_live_employee_counterexample:
  "map AttributeValue (filter (\<lambda>h. AttributeType h = ''performance_grade'')
      (case PostgresEmployeeRepository_GetHistory regraded_db ''emp_123'' test_timestamp of
         Inr rows \<Rightarrow> rows | Inl e \<Rightarrow> [])) = [''A'']
   \<and> (case fst (CaptureSnapshot PostgresSnapshotService \<lparr>db = regraded_db, calls = []\<rparr>
                   ''emp_123'' test_timestamp) of
         Inr snap \<Rightarrow> SnapshotCore snap ''performance_grade''
       | Inl e \<Rightarrow> None) = Some (VString ''B'')"
  by (simp add: PostgresEmployeeRepository_GetHistory_def regraded_db_def test_timestamp_def
      CaptureSnapshot_def PostgresSnapshotService_def PostgresEmployeeRepository_GetByID_def
      PostgresOrgRepository_GetUnitAtTime_def test_employee_def test_orgUnit_def
      time_le_def time_less_def Date_def called_def buildCoreSnapshot_def Let_def)

section \<open>Submission\<close>

text \<open>
  C4: when the employee read fails, or the employee read succeeds and the unit read
  fails, \<open>Submit\<close> returns an error that wraps the capture error, the database is as it
  was, and no \<open>Create\<close> call has been made on the response store.
\<close>

theorem Submit_capture_failure:
  assumes "employeeRepo_GetByID (snapshotSvc s) (db w) employeeID = Inl e
     \<or> (employeeRepo_GetByID (snapshotSvc s) (db w) employeeID = Inr employee
        \<and> orgRepo_GetUnitAtTime (snapshotSvc s) (db w) (Employee_UnitID employee) now = Inl e)"
  shows "fst (Submit s now newID w surveyID employeeID tenantID answers)
            = Inl (Wrapf ''failed to capture snapshot''
                (Wrapf (if isl (employeeRepo_GetByID (snapshotSvc s) (db w) employeeID)
                        then ''failed to get employee'' else ''failed to get org unit'') e))
     \<and> db (snd (Submit s now newID w surveyID employeeID tenantID answers)) = db w
     \<and> filter is_Create (calls (snd (Submit s now newID w surveyID employeeID tenantID answers)))
         = filter is_Create (calls w)"
  using assms
proof
  assume a: "employeeRepo_GetByID (snapshotSvc s) (db w) employeeID = Inl e"
  from CaptureSnapshot_employee_failure [OF a] a
  show ?thesis by (simp add: Submit_def)
next
  assume "employeeRepo_GetByID (snapshotSvc s) (db w) employeeID = Inr employee
        \<and> orgRepo_GetUnitAtTime (snapshotSvc s) (db w) (Employee_UnitID employee) now = Inl e"
  then have "\<not> isl (employeeRepo_GetByID (snapshotSvc s) (db w) employeeID)"
    and "CaptureSnapshot (snapshotSvc s) w employeeID now =
           (Inl (Wrapf ''failed to get org unit'' e),
            w\<lparr>calls := calls w @ [EmployeeRepo_GetByID employeeID,
                                   OrgRepo_GetUnitAtTime (Employee_UnitID employee) now]\<rparr>)"
    by (simp_all add: CaptureSnapshot_unit_failure)
  then show ?thesis by (simp add: Submit_def)
qed

theorem Submit_capture_failure_witness:
  "employeeRepo_GetByID (snapshotSvc mockResponseService) (db \<lparr>db = [], calls = []\<rparr>) ''emp_999''
      = Inl (Errorf ''mock: employee not found'')
   \<and> fst (Submit mockResponseService test_timestamp ''resp_1'' \<lparr>db = [], calls = []\<rparr>
            ''survey_001'' ''emp_999'' ''tenant_acme'' [''q1_engagement'' \<mapsto> VInt 9])
      = Inl (Wrapf ''failed to capture snapshot''
              (Wrapf ''failed to get employee'' (Errorf ''mock: employee not found'')))
   \<and> db (snd (Submit mockResponseService test_timestamp ''resp_1'' \<lparr>db = [], calls = []\<rparr>
            ''survey_001'' ''emp_999'' ''tenant_acme'' [''q1_engagement'' \<mapsto> VInt 9])) = []
   \<and> filter is_Create (calls (snd (Submit mockResponseService test_timestamp ''resp_1''
            \<lparr>db = [], calls = []\<rparr> ''survey_001'' ''emp_999'' ''tenant_acme''
            [''q1_engagement'' \<mapsto> VInt 9]))) = []
   \<and> orgRepo_GetUnitAtTime (snapshotSvc mockResponseService) (db \<lparr>db = [], calls = []\<rparr>)
        ''unit_000'' test_timestamp = Inl (Errorf ''mock: org unit not found'')
   \<and> fst (Submit mockResponseService test_timestamp ''resp_1'' \<lparr>db = [], calls = []\<rparr>
            ''survey_001'' ''emp_124'' ''tenant_acme'' [''q1_engagement'' \<mapsto> VInt 9])
      = Inl (Wrapf ''failed to capture snapshot''
              (Wrapf ''failed to get org unit'' (Errorf ''mock: org unit not found'')))
   \<and> db (snd (Submit mockResponseService test_timestamp ''resp_1'' \<lparr>db = [], calls = []\<rparr>
            ''survey_001'' ''emp_124'' ''tenant_acme'' [''q1_engagement'' \<mapsto> VInt 9])) = []"
proof -
  let ?w = "\<lparr>db = ([] :: Response list), calls = []\<rparr>"
  let ?e124 = "test_employee\<lparr>Employee_EmployeeID := ''emp_124'', Employee_UnitID := ''unit_000''\<rparr>"
  have h: "employeeRepo_GetByID (snapshotSvc mockResponseService) (db ?w)
             ''emp_999'' = Inl (Errorf ''mock: employee not found'')"
    by (simp add: mockResponseService_def mockSnapshotService_def)
  have g: "employeeRepo_GetByID (snapshotSvc mockResponseService) (db ?w) ''emp_124'' = Inr ?e124"
    by (simp add: mockResponseService_def mockSnapshotService_def)
  have u: "orgRepo_GetUnitAtTime (snapshotSvc mockResponseService) (db ?w)
        ''unit_000'' test_timestamp = Inl (Errorf ''mock: org unit not found'')"
    by (simp add: mockResponseService_def mockSnapshotService_def)
  have u': "orgRepo_GetUnitAtTime (snapshotSvc mockResponseService) (db ?w)
        (Employee_UnitID ?e124) test_timestamp = Inl (Errorf ''mock: org unit not found'')"
    using u by simp
  note first = Submit_capture_failure [OF disjI1, OF h, of test_timestamp "''resp_1''"
      "''survey_001''" "''tenant_acme''" "[''q1_engagement'' \<mapsto> VInt 9]"]
  note second = Submit_capture_failure [OF disjI2, OF conjI, OF g u', of "''resp_1''"
      "''survey_001''" "''tenant_acme''" "[''q1_engagement'' \<mapsto> VInt 9]"]
  from first second h g u show ?thesis by simp
qed

text \<open>
  C5: when the capture succeeds, the response handed to \<open>Create\<close> has \<open>Answers\<close> unset,
  whatever the \<open>answers\<close> argument; \<open>Submit\<close> does not depend on that argument at all.
\<close>

theorem Submit_answers_unset:
  assumes "CaptureSnapshot (snapshotSvc s) w employeeID now = (Inr snapshot, w1)"
  shows "calls (snd (Submit s now newID w surveyID employeeID tenantID answers))
           = calls w1 @ [ResponseRepo_Create
               \<lparr>ResponseID = newID, SurveyID = surveyID, Response_EmployeeID = employeeID,
                SubmittedAt = zeroTime, Response_SnapshotCore = SnapshotCore snapshot,
                Response_VersionID = VersionID snapshot, Answers = None,
                Response_TenantID = tenantID, Response_CreatedAt = zeroTime\<rparr>]
     \<and> Submit s now newID w surveyID employeeID tenantID answers
           = Submit s now newID w surveyID employeeID tenantID Map.empty"
  using assms by (simp add: Submit_def called_def Let_def split: prod.splits sum.splits)

theorem Submit_answers_unset_witness:
  "fst (CaptureSnapshot (snapshotSvc mockResponseService) \<lparr>db = [], calls = []\<rparr> ''emp_123''
          test_timestamp)
     = Inr \<lparr>Snapshot_EmployeeID = ''emp_123'',
            SnapshotCore = buildCoreSnapshot test_employee test_orgUnit test_timestamp,
            VersionID = generateVersionID ''emp_123'' test_timestamp,
            Timestamp = test_timestamp\<rparr>
   \<and> map Answers (db (snd (Submit mockResponseService test_timestamp ''resp_1''
         \<lparr>db = [], calls = []\<rparr> ''survey_001'' ''emp_123'' ''tenant_acme''
         [''q1_engagement'' \<mapsto> VInt 9, ''q2_satisfaction'' \<mapsto> VString ''Very Satisfied''])))
       = [None]
   \<and> filter is_Create (calls (snd (Submit mockResponseService test_timestamp ''resp_1''
         \<lparr>db = [], calls = []\<rparr> ''survey_001'' ''emp_123'' ''tenant_acme''
         [''q1_engagement'' \<mapsto> VInt 9, ''q2_satisfaction'' \<mapsto> VString ''Very Satisfied''])))
       = [ResponseRepo_Create
            \<lparr>ResponseID = ''resp_1'', SurveyID = ''survey_001'', Response_EmployeeID = ''emp_123'',
             SubmittedAt = zeroTime,
             Response_SnapshotCore = buildCoreSnapshot test_employee test_orgUnit test_timestamp,
             Response_VersionID = generateVersionID ''emp_123'' test_timestamp, Answers = None,
             Response_TenantID = ''tenant_acme'', Response_CreatedAt = zeroTime\<rparr>]"
proof -
  have c: "CaptureSnapshot (snapshotSvc mockResponseService) \<lparr>db = [], calls = []\<rparr> ''emp_123''
             test_timestamp
     = (Inr \<lparr>Snapshot_EmployeeID = ''emp_123'',
            SnapshotCore = buildCoreSnapshot test_employee test_orgUnit test_timestamp,
            VersionID = generateVersionID ''emp_123'' test_timestamp,
            Timestamp = test_timestamp\<rparr>,
        \<lparr>db = [], calls = [EmployeeRepo_GetByID ''emp_123'',
                             OrgRepo_GetUnitAtTime ''unit_456'' test_timestamp]\<rparr>)"
    using CaptureSnapshot_success [OF mock_GetByID_emp_123 mock_GetUnitAtTime_unit_456,
        of "\<lparr>db = [], calls = []\<rparr>" test_timestamp]
    by (simp add: mockResponseService_def test_employee_def)
  have s: "db (snd (Submit mockResponseService test_timestamp ''resp_1''
         \<lparr>db = [], calls = []\<rparr> ''survey_001'' ''emp_123'' ''tenant_acme''
         [''q1_engagement'' \<mapsto> VInt 9, ''q2_satisfaction'' \<mapsto> VString ''Very Satisfied'']))
      = [\<lparr>ResponseID = ''resp_1'', SurveyID = ''survey_001'', Response_EmployeeID = ''emp_123'',
             SubmittedAt = zeroTime,
             Response_SnapshotCore = buildCoreSnapshot test_employee test_orgUnit test_timestamp,
             Response_VersionID = generateVersionID ''emp_123'' test_timestamp, Answers = None,
             Response_TenantID = ''tenant_acme'', Response_CreatedAt = zeroTime\<rparr>]"
    using c by (simp add: Submit_def Let_def mockResponseService_def)
  from Submit_answers_unset [OF c, THEN conjunct1, of "''resp_1''" "''survey_001''" "''tenant_acme''"
      "[''q1_engagement'' \<mapsto> VInt 9, ''q2_satisfaction'' \<mapsto> VString ''Very Satisfied'']"] c s
  show ?thesis by simp
qed

section \<open>Lineage resolution\<close>

text \<open>
  C10: resolving the same name twice in a row gives the same result, and the second
  resolution leaves the cache as the first left it.
\<close>

theorem MapCurrentToHistorical_twice:
  "fst (MapCurrentToHistorical (snd (MapCurrentToHistorical m name)) name)
     = fst (MapCurrentToHistorical m name)
   \<and> snd (MapCurrentToHistorical (snd (MapCurrentToHistorical m name)) name)
     = snd (MapCurrentToHistorical m name)"
  by (simp add: MapCurrentToHistorical_def Let_def split: option.splits)

text \<open>
  C1 on the code: for the restructure in which \<open>unit_123\<close> is renamed and then split into
  \<open>unit_456\<close> and \<open>unit_457\<close>, the closure of the specification from \<open>unit_456\<close> contains
  \<open>unit_123\<close>, and \<open>MapCurrentToHistorical\<close> returns \<open>unit_456\<close> alone.
\<close>

theorem MapCurrentToHistorical_misses_predecessor:
  "fst (MapCurrentToHistorical NewOrgMapper ''unit_456'') = Inr [''unit_456'']
   \<and> ''unit_123'' \<in> set (spec_TO_HISTORICAL restructure_edges ''unit_456'')
   \<and> ''unit_123'' \<notin> set [''unit_456'']"
  by (simp add: MapCurrentToHistorical_def NewOrgMapper_def spec_TO_HISTORICAL_def
      spec_predecessors_def restructure_edges_def Let_def)

section \<open>Dashboard queries\<close>

text \<open>
  C7: a query whose filter mode is none of HISTORICAL, CURRENT and HYBRID returns the
  error \<open>invalid filter mode\<close>, with the service and the world unchanged: no repository
  call has been made.
\<close>

theorem Query_invalid_filter_mode:
  assumes "FilterMode query \<noteq> FilterModeHistorical"
    and "FilterMode query \<noteq> FilterModeCurrent"
    and "FilterMode query \<noteq> FilterModeHybrid"
  shows "Query s w query = (Inl (Errorf (''invalid filter mode: '' @ FilterMode query)), s, w)"
  using assms by (simp add: Query_def)

theorem Query_invalid_filter_mode_witness:
  "FilterMode (test_query ''LATEST'') \<noteq> FilterModeHistorical
   \<and> FilterMode (test_query ''LATEST'') \<noteq> FilterModeCurrent
   \<and> FilterMode (test_query ''LATEST'') \<noteq> FilterModeHybrid
   \<and> Query mockDashboardService \<lparr>db = (), calls = []\<rparr> (test_query ''LATEST'')
       = (Inl (Errorf ''invalid filter mode: LATEST''), mockDashboardService,
          \<lparr>db = (), calls = []\<rparr>)"
proof -
  have a: "FilterMode (test_query ''LATEST'') \<noteq> FilterModeHistorical"
    by (simp add: test_query_def FilterModeHistorical_def)
  have b: "FilterMode (test_query ''LATEST'') \<noteq> FilterModeCurrent"
    by (simp add: test_query_def FilterModeCurrent_def)
  have c: "FilterMode (test_query ''LATEST'') \<noteq> FilterModeHybrid"
    by (simp add: test_query_def FilterModeHybrid_def)
  have d: "FilterMode (test_query ''LATEST'') = ''LATEST''"
    by (simp add: test_query_def)
  show ?thesis
    using Query_invalid_filter_mode [OF a b c, of mockDashboardService "\<lparr>db = (), calls = []\<rparr>"] a b c d
    by simp
qed

text \<open>
  C2 on the code: a CURRENT query for department Revenue APAC, with a fresh mapper, asks
  the response repository for \<open>unit_id\<close> equal to the list holding the name Revenue APAC;
  the identifier \<open>unit_123\<close> is not in that list.
\<close>

theorem queryCurrent_resolves_name_not_identifier:
  "calls (snd (snd (Query (s\<lparr>orgMapper := NewOrgMapper\<rparr>) w
       \<lparr>Filters = [''department'' \<mapsto> VString ''Revenue APAC''],
        FilterMode = FilterModeCurrent, TimeRange = timeRange, TenantID = tenantID\<rparr>)))
     = calls w @ [ResponseRepo_Query
         \<lparr>Filters = [''unit_id'' \<mapsto> VStrings [''Revenue APAC'']],
          FilterMode = FilterModeCurrent, TimeRange = timeRange, TenantID = tenantID\<rparr>]
   \<and> ''unit_123'' \<notin> set [''Revenue APAC'']"
  by (simp add: Query_def queryCurrent_def MapCurrentToHistorical_def NewOrgMapper_def
      FilterModeCurrent_def FilterModeHistorical_def called_def Let_def split: sum.splits)

text \<open>
  C6: when both sub-queries of a HYBRID query succeed, both have been sent to the
  repository, historical first, and the result is their merge: every response
  identifier occurs once, the identifiers are those of the two sub-results, the response
  kept for an identifier is the first with that identifier in the historical list followed
  by the current list, the count is the length of the merged list, and the provenance
  counts are the lengths of the two sub-results. When either sub-query fails, the query
  returns that error and no merged result.
\<close>

theorem queryHybrid_merges_both:
  "(\<forall>h w1 c s' w2.
      queryHistorical s w query = (Inr h, w1) \<longrightarrow> queryCurrent s w1 query = (Inr c, s', w2) \<longrightarrow>
        queryHybrid s w query = (Inr (mergeResults h c), s', w2)
        \<and> (\<exists>q'. calls w2 = calls w @ [ResponseRepo_Query query, ResponseRepo_Query q'])
        \<and> distinct (map ResponseID (Responses (mergeResults h c)))
        \<and> set (map ResponseID (Responses (mergeResults h c)))
            = set (map ResponseID (Responses h)) \<union> set (map ResponseID (Responses c))
        \<and> (\<forall>i. find (\<lambda>r. ResponseID r = i) (Responses (mergeResults h c))
               = find (\<lambda>r. ResponseID r = i) (Responses h @ Responses c))
        \<and> Count (mergeResults h c) = int (length (Responses (mergeResults h c)))
        \<and> Provenance (mergeResults h c)
            = Some \<lparr>HistoricalCount = int (length (Responses h)),
                    CurrentCount = int (length (Responses c)), HistoricalUnits = []\<rparr>)
   \<and> (\<forall>e w1. queryHistorical s w query = (Inl e, w1) \<longrightarrow>
          queryHybrid s w query = (Inl e, s, w1))
   \<and> (\<forall>h w1 e s' w2.
          queryHistorical s w query = (Inr h, w1) \<longrightarrow> queryCurrent s w1 query = (Inl e, s', w2) \<longrightarrow>
          queryHybrid s w query = (Inl e, s', w2))"
proof (intro conjI allI impI)
  fix h w1 c s' w2
  assume a: "queryHistorical s w query = (Inr h, w1)" and b: "queryCurrent s w1 query = (Inr c, s', w2)"
  show "queryHybrid s w query = (Inr (mergeResults h c), s', w2)"
    using a b by (simp add: queryHybrid_def)
  show "\<exists>q'. calls w2 = calls w @ [ResponseRepo_Query query, ResponseRepo_Query q']"
    using queryHistorical_Count [OF a] queryCurrent_Count [OF b] by auto
  show "distinct (map ResponseID (Responses (mergeResults h c)))"
    using mergeResults_props [of h c] by blast
  show "set (map ResponseID (Responses (mergeResults h c)))
            = set (map ResponseID (Responses h)) \<union> set (map ResponseID (Responses c))"
    using mergeResults_props [of h c] by blast
  show "find (\<lambda>r. ResponseID r = i) (Responses (mergeResults h c))
               = find (\<lambda>r. ResponseID r = i) (Responses h @ Responses c)" for i
    using mergeResults_props [of h c] by blast
  show "Count (mergeResults h c) = int (length (Responses (mergeResults h c)))"
    using mergeResults_props [of h c] by blast
  show "Provenance (mergeResults h c)
            = Some \<lparr>HistoricalCount = int (length (Responses h)),
                    CurrentCount = int (length (Responses c)), HistoricalUnits = []\<rparr>"
    using mergeResults_props [of h c] queryHistorical_Count [OF a] queryCurrent_Count [OF b]
    by simp
next
  fix e w1
  assume "queryHistorical s w query = (Inl e, w1)"
  then show "queryHybrid s w query = (Inl e, s, w1)" by (simp add: queryHybrid_def)
next
  fix h w1 e s' w2
  assume "queryHistorical s w query = (Inr h, w1)" "queryCurrent s w1 query = (Inl e, s', w2)"
  then show "queryHybrid s w query = (Inl e, s', w2)" by (simp add: queryHybrid_def)
qed

theorem queryHybrid_merges_both_witness:
  "queryHistorical mockDashboardService \<lparr>db = (), calls = []\<rparr> (test_query FilterModeHybrid)
     = (Inr \<lparr>Responses = [test_response ''r1'' ''Revenue APAC'', test_response ''r2'' ''Revenue APAC''],
             Count = 2, Aggregations = None, Provenance = None\<rparr>,
        \<lparr>db = (), calls = [ResponseRepo_Query (test_query FilterModeHybrid)]\<rparr>)
   \<and> fst (queryCurrent mockDashboardService
            \<lparr>db = (), calls = [ResponseRepo_Query (test_query FilterModeHybrid)]\<rparr>
            (test_query FilterModeHybrid))
     = Inr \<lparr>Responses = [test_response ''r2'' ''Revenue APAC'', test_response ''r3'' ''Sales APAC''],
            Count = 2, Aggregations = None, Provenance = None\<rparr>
   \<and> (case fst (queryHybrid mockDashboardService \<lparr>db = (), calls = []\<rparr>
                   (test_query FilterModeHybrid)) of
         Inr m \<Rightarrow> (map ResponseID (Responses m), Count m, Provenance m)
       | Inl e \<Rightarrow> ([], 0, None))
     = ([''r1'', ''r2'', ''r3''], 3,
        Some \<lparr>HistoricalCount = 2, CurrentCount = 2, HistoricalUnits = []\<rparr>)"
proof -
  let ?h = "\<lparr>Responses = [test_response ''r1'' ''Revenue APAC'', test_response ''r2'' ''Revenue APAC''],
             Count = 2, Aggregations = None, Provenance = None\<rparr>"
  let ?c = "\<lparr>Responses = [test_response ''r2'' ''Revenue APAC'', test_response ''r3'' ''Sales APAC''],
            Count = 2, Aggregations = None, Provenance = None\<rparr>"
  let ?w1 = "\<lparr>db = (), calls = [ResponseRepo_Query (test_query FilterModeHybrid)]\<rparr>"
  have a: "queryHistorical mockDashboardService \<lparr>db = (), calls = []\<rparr> (test_query FilterModeHybrid)
     = (Inr ?h, ?w1)"
    by (simp add: queryHistorical_def mockDashboardService_def test_query_def called_def Let_def)
  obtain s' w2 where b: "queryCurrent mockDashboardService ?w1 (test_query FilterModeHybrid)
     = (Inr ?c, s', w2)"
    by (simp add: queryCurrent_def mockDashboardService_def test_query_def called_def Let_def
        MapCurrentToHistorical_def NewOrgMapper_def)
  have m: "map ResponseID (Responses (mergeResults ?h ?c)) = [''r1'', ''r2'', ''r3'']"
    by (simp add: mergeResults_def test_response_def)
  have len: "length (Responses (mergeResults ?h ?c)) = 3"
    by (simp add: mergeResults_def test_response_def)
  from queryHybrid_merges_both [of mockDashboardService "\<lparr>db = (), calls = []\<rparr>"
      "test_query FilterModeHybrid"] a b
  have "queryHybrid mockDashboardService \<lparr>db = (), calls = []\<rparr> (test_query FilterModeHybrid)
          = (Inr (mergeResults ?h ?c), s', w2)
        \<and> Count (mergeResults ?h ?c) = int (length (Responses (mergeResults ?h ?c)))
        \<and> Provenance (mergeResults ?h ?c)
            = Some \<lparr>HistoricalCount = int (length (Responses ?h)),
                    CurrentCount = int (length (Responses ?c)), HistoricalUnits = []\<rparr>"
    by blast
  with a b m len show ?thesis
    by simp
qed

text \<open>
  C9, as the code has it: every query the repository receives carries, for every key other
  than \<open>department\<close> and \<open>unit_id\<close>, the filter of the caller's query; when the caller's
  query has no string-valued \<open>department\<close> filter, and always in HISTORICAL mode, the
  repository receives the caller's query as it is. When the caller's query has a
  string-valued \<open>department\<close> filter, a CURRENT query sends the repository exactly one
  query, the caller's with \<open>department\<close> removed and \<open>unit_id\<close> set to the list that
  \<open>MapCurrentToHistorical\<close> returns, whatever \<open>unit_id\<close> the caller supplied; a HYBRID
  query sends the caller's query first and, when that sub-query succeeds, this
  translated query second.
\<close>

theorem Query_passes_other_filters:
  "(ResponseRepo_Query q' \<in> set (drop (length (calls w)) (calls (snd (snd (Query s w query)))))
      \<longrightarrow> (k \<noteq> ''department'' \<longrightarrow> k \<noteq> ''unit_id'' \<longrightarrow> Filters q' k = Filters query k)
        \<and> ((\<forall>dept. Filters query ''department'' \<noteq> Some (VString dept)) \<longrightarrow> q' = query)
        \<and> (FilterMode query = FilterModeHistorical \<longrightarrow> q' = query))
   \<and> (Filters query ''department'' = Some (VString dept)
      \<longrightarrow> fst (MapCurrentToHistorical (orgMapper s) dept) = Inr ids
      \<longrightarrow> (FilterMode query = FilterModeCurrent
            \<longrightarrow> drop (length (calls w)) (calls (snd (snd (Query s w query))))
                = [ResponseRepo_Query
                     (query\<lparr>Filters := ((Filters query)(''department'' := None))
                                          (''unit_id'' \<mapsto> VStrings ids)\<rparr>)])
        \<and> (FilterMode query = FilterModeHybrid
            \<longrightarrow> drop (length (calls w)) (calls (snd (snd (Query s w query))))
                = (if isl (responseRepo_Query s (db w) query) then [ResponseRepo_Query query]
                   else [ResponseRepo_Query query,
                         ResponseRepo_Query
                           (query\<lparr>Filters := ((Filters query)(''department'' := None))
                                                (''unit_id'' \<mapsto> VStrings ids)\<rparr>)]))
        \<and> Filters (query\<lparr>Filters := ((Filters query)(''department'' := None))
                                      (''unit_id'' \<mapsto> VStrings ids)\<rparr>) ''department'' = None
        \<and> Filters (query\<lparr>Filters := ((Filters query)(''department'' := None))
                                      (''unit_id'' \<mapsto> VStrings ids)\<rparr>) ''unit_id''
            = Some (VStrings ids))"
proof (intro conjI impI)
  assume m: "ResponseRepo_Query q' \<in> set (drop (length (calls w)) (calls (snd (snd (Query s w query)))))"
  note o = Query_other_filters [OF m]
  show "Filters q' k = Filters query k" if "k \<noteq> ''department''" "k \<noteq> ''unit_id''"
    using o [of k] that by blast
  show "q' = query" if "\<forall>dept. Filters query ''department'' \<noteq> Some (VString dept)"
    using o [of k] that by blast
  show "q' = query" if "FilterMode query = FilterModeHistorical"
    using o [of k] that by blast
next
  assume d: "Filters query ''department'' = Some (VString dept)"
    and r: "fst (MapCurrentToHistorical (orgMapper s) dept) = Inr ids"
    and c: "FilterMode query = FilterModeCurrent"
  from c have "Query s w query = queryCurrent s w query"
    by (simp add: Query_def FilterModeCurrent_def FilterModeHistorical_def)
  with queryCurrent_translates [OF d r, of w]
  show "drop (length (calls w)) (calls (snd (snd (Query s w query))))
                = [ResponseRepo_Query
                     (query\<lparr>Filters := ((Filters query)(''department'' := None))
                                          (''unit_id'' \<mapsto> VStrings ids)\<rparr>)]"
    by simp
next
  assume d: "Filters query ''department'' = Some (VString dept)"
    and r: "fst (MapCurrentToHistorical (orgMapper s) dept) = Inr ids"
    and y: "FilterMode query = FilterModeHybrid"
  from y have "Query s w query = queryHybrid s w query"
    by (simp add: Query_def FilterModeCurrent_def FilterModeHistorical_def FilterModeHybrid_def)
  with queryHybrid_translates [OF d r, of w]
  show "drop (length (calls w)) (calls (snd (snd (Query s w query))))
                = (if isl (responseRepo_Query s (db w) query) then [ResponseRepo_Query query]
                   else [ResponseRepo_Query query,
                         ResponseRepo_Query
                           (query\<lparr>Filters := ((Filters query)(''department'' := None))
                                                (''unit_id'' \<mapsto> VStrings ids)\<rparr>)])"
    by simp
qed simp_all

theorem Query_passes_other_filters_witness:
  "ResponseRepo_Query ((test_query FilterModeCurrent)
          \<lparr>Filters := ((Filters (test_query FilterModeCurrent))(''department'' := None))
                         (''unit_id'' \<mapsto> VStrings [''Revenue APAC''])\<rparr>)
     \<in> set (drop (length (calls \<lparr>db = (), calls = []\<rparr>))
          (calls (snd (snd (Query mockDashboardService \<lparr>db = (), calls = []\<rparr>
             (test_query FilterModeCurrent))))))
   \<and> Filters ((test_query FilterModeCurrent)
          \<lparr>Filters := ((Filters (test_query FilterModeCurrent))(''department'' := None))
                         (''unit_id'' \<mapsto> VStrings [''Revenue APAC''])\<rparr>) ''performance_grade''
       = Some (VString ''A'')
   \<and> Filters (test_query FilterModeCurrent) ''department'' = Some (VString ''Revenue APAC'')
   \<and> fst (MapCurrentToHistorical (orgMapper mockDashboardService) ''Revenue APAC'')
       = Inr [''Revenue APAC'']
   \<and> FilterMode (test_query FilterModeCurrent) = FilterModeCurrent
   \<and> drop (length (calls \<lparr>db = (), calls = []\<rparr>))
        (calls (snd (snd (Query mockDashboardService \<lparr>db = (), calls = []\<rparr>
           (test_query FilterModeCurrent)))))
       = [ResponseRepo_Query ((test_query FilterModeCurrent)
            \<lparr>Filters := ((Filters (test_query FilterModeCurrent))(''department'' := None))
                           (''unit_id'' \<mapsto> VStrings [''Revenue APAC''])\<rparr>)]
   \<and> FilterMode (test_query FilterModeHybrid) = FilterModeHybrid
   \<and> drop (length (calls \<lparr>db = (), calls = []\<rparr>))
        (calls (snd (snd (Query mockDashboardService \<lparr>db = (), calls = []\<rparr>
           (test_query FilterModeHybrid)))))
       = [ResponseRepo_Query (test_query FilterModeHybrid),
          ResponseRepo_Query ((test_query FilterModeHybrid)
            \<lparr>Filters := ((Filters (test_query FilterModeHybrid))(''department'' := None))
                           (''unit_id'' \<mapsto> VStrings [''Revenue APAC''])\<rparr>)]"
proof -
  let ?w = "\<lparr>db = (), calls = []\<rparr>"
  let ?qc = "test_query FilterModeCurrent"
  let ?qy = "test_query FilterModeHybrid"
  let ?tc = "?qc\<lparr>Filters := ((Filters ?qc)(''department'' := None))
                         (''unit_id'' \<mapsto> VStrings [''Revenue APAC''])\<rparr>"
  have dc: "Filters ?qc ''department'' = Some (VString ''Revenue APAC'')"
    and dy: "Filters ?qy ''department'' = Some (VString ''Revenue APAC'')"
    and g: "Filters ?qc ''performance_grade'' = Some (VString ''A'')"
    and mc: "FilterMode ?qc = FilterModeCurrent"
    and my: "FilterMode ?qy = FilterModeHybrid"
    by (simp_all add: test_query_def)
  have r: "fst (MapCurrentToHistorical (orgMapper mockDashboardService) ''Revenue APAC'')
       = Inr [''Revenue APAC'']"
    by (simp add: MapCurrentToHistorical_def mockDashboardService_def NewOrgMapper_def Let_def)
  have ok: "\<not> isl (responseRepo_Query mockDashboardService (db ?w) ?qy)"
    by (simp add: mockDashboardService_def test_query_def)
  note tc = Query_passes_other_filters [THEN conjunct2, rule_format, OF dc r, THEN conjunct1,
      rule_format, OF mc, of ?w]
  note ty = Query_passes_other_filters [THEN conjunct2, rule_format, OF dy r, THEN conjunct2,
      THEN conjunct1, rule_format, OF my, of ?w]
  from tc have m: "ResponseRepo_Query ?tc
     \<in> set (drop (length (calls ?w)) (calls (snd (snd (Query mockDashboardService ?w ?qc)))))"
    by simp
  note o = Query_passes_other_filters [THEN conjunct1, rule_format, OF m,
      THEN conjunct1, rule_format, of "''performance_grade''"]
  have p: "Filters ?tc ''performance_grade'' = Some (VString ''A'')"
    using o g by simp
  from m p dc r mc tc my ty ok show ?thesis by simp
qed

text \<open>
  C9 as stated fails for the key \<open>unit_id\<close>: a CURRENT query that filters on department
  Revenue APAC and on \<open>unit_id\<close> = \<open>unit_999\<close> reaches the repository with \<open>unit_id\<close> set
  to the mapped list.
\<close>

theorem Query_overwrites_unit_id_counterexample:
  "FilterMode (test_query FilterModeCurrent) = FilterModeCurrent
   \<and> Filters ((test_query FilterModeCurrent)
        \<lparr>Filters := (Filters (test_query FilterModeCurrent))(''unit_id'' \<mapsto> VString ''unit_999'')\<rparr>)
        ''unit_id'' = Some (VString ''unit_999'')
   \<and> map (\<lambda>c. case c of ResponseRepo_Query q' \<Rightarrow> Filters q' ''unit_id'' | _ \<Rightarrow> None)
        (calls (snd (snd (Query mockDashboardService \<lparr>db = (), calls = []\<rparr>
          ((test_query FilterModeCurrent)
            \<lparr>Filters := (Filters (test_query FilterModeCurrent))
                           (''unit_id'' \<mapsto> VString ''unit_999'')\<rparr>)))))
       = [Some (VStrings [''Revenue APAC''])]"
  by (simp add: Query_def queryCurrent_def test_query_def mockDashboardService_def
      MapCurrentToHistorical_def NewOrgMapper_def called_def Let_def
      FilterModeCurrent_def FilterModeHistorical_def)

end
